theory Spec2Isabelle
  imports Main
begin

section \<open>The push-channel hook \<open>useWebSocket\<close>\<close>

text \<open>
  The hook keeps three refs (\<open>wsRef\<close>, \<open>reconnectCountRef\<close>, \<open>reconnectTimeoutRef\<close>), two
  pieces of React state (\<open>isConnected\<close>, \<open>lastMessage\<close>) and the closure variable
  \<open>disposed\<close> of its connection effect. Its callbacks run one at a time on the event loop,
  so the hook is a state machine: every callback is a function from the state before it to
  the state after it. The state below also holds what the callbacks reach outside the hook:
  the \<open>sliverui-auth\<close> item of localStorage, the WebSocket objects created so far, the
  timers created so far, and the log of calls made on collaborators (console, query
  client, toast, notification store, socket).

  A state describes one run of the connection effect (from its start to its cleanup), with
  the options fixed.
\<close>

subsection \<open>Data\<close>

datatype ready_state = CONNECTING | OPEN | CLOSING | CLOSED

text \<open>
  Two places create sockets and install different handlers on them: \<open>openConnection\<close>
  (inside the effect) and the exported \<open>connect\<close>.
\<close>

datatype handler_kind = FromOpenConnection | FromConnect

record web_socket =
  readyState :: ready_state
  handlers :: handler_kind
  url :: string

text \<open>A timer made by \<open>setTimeout\<close>; every callback passed to it is \<open>openConnection\<close>.\<close>

record timer =
  delay :: int
  pending :: bool

text \<open>
  The envelope of a frame after \<open>JSON.parse\<close>. \<open>event\<close> is \<open>None\<close> when the value has no
  string-valued \<open>event\<close> member; \<open>data\<close> lists the members of \<open>data\<close> (empty when absent),
  with their values as strings.
\<close>

record message =
  event :: "string option"
  data :: "(string \<times> string) list"

text \<open>
  What \<open>JSON.parse(event.data)\<close> does on a frame: it throws (\<open>NotJson\<close>), yields \<open>null\<close>
  (on which reading \<open>.event\<close> throws), or yields a value read as an envelope.
\<close>

datatype frame = NotJson | JsonNull | Envelope message

text \<open>
  The parsed content of the \<open>sliverui-auth\<close> storage item: \<open>Malformed\<close> when parsing it or
  reading \<open>.state\<close> of the result throws, otherwise the value of \<open>state?.accessToken\<close>
  (a string when present). The item itself is an option: \<open>None\<close> is \<open>null\<close> (no item) or
  the empty string.
\<close>

datatype auth_value = Malformed | AuthState "string option"

datatype log_arg = Str string | Num int | Opt "string option" | Exn string

datatype effect =
    ConsoleLog "log_arg list"
  | ConsoleError "log_arg list"
  | ConsoleWarn "log_arg list"
  | InvalidateQueries "string option list"
  | Toast "string option" "string option" "string option"
  | AddNotification string "string option" "string option" "(string \<times> string) list"
  | WsCloseCall nat nat string
  | WsSend nat string

text \<open>
  \<open>Toast variant title description\<close>; \<open>AddNotification type title message data\<close>;
  \<open>WsCloseCall socket code reason\<close>; \<open>WsSend socket text\<close>.
\<close>

record config =
  autoConnect :: bool
  reconnectAttempts :: int
  reconnectInterval :: int
  location_protocol :: string
  location_host :: string

text \<open>The defaults of \<open>UseWebSocketOptions\<close>.\<close>

definition default_options :: "string \<Rightarrow> string \<Rightarrow> config" where
  "default_options proto host =
     \<lparr>autoConnect = True, reconnectAttempts = 5, reconnectInterval = 3000,
      location_protocol = proto, location_host = host\<rparr>"

record hook_state =
  wsRef :: "nat option"
  reconnectCountRef :: nat
  reconnectTimeoutRef :: "nat option"
  isConnected :: bool
  lastMessage :: "message option"
  disposed :: bool
  authItem :: "auth_value option"
  sockets :: "web_socket list"
  timers :: "timer list"
  effects :: "effect list"

text \<open>
  A socket is named by its position in \<open>sockets\<close> and a timer by its position in
  \<open>timers\<close>; both lists only grow.
\<close>

definition initial :: "auth_value option \<Rightarrow> hook_state" where
  "initial item =
     \<lparr>wsRef = None, reconnectCountRef = 0, reconnectTimeoutRef = None,
      isConnected = False, lastMessage = None, disposed = False,
      authItem = item, sockets = [], timers = [], effects = []\<rparr>"

definition emit :: "effect list \<Rightarrow> hook_state \<Rightarrow> hook_state" where
  "emit es s = s\<lparr>effects := effects s @ es\<rparr>"

subsection \<open>Token and URL\<close>

text \<open>\<open>getToken\<close>: \<open>parsed.state?.accessToken || null\<close>, and \<open>null\<close> on any exception.\<close>

definition getToken :: "auth_value option \<Rightarrow> string option" where
  "getToken item =
     (case item of
        None \<Rightarrow> None
      | Some Malformed \<Rightarrow> None
      | Some (AuthState None) \<Rightarrow> None
      | Some (AuthState (Some t)) \<Rightarrow> (if t = [] then None else Some t))"

text \<open>A template literal prints \<open>null\<close> and \<open>undefined\<close> by name.\<close>

definition buildWebSocketUrl :: "config \<Rightarrow> auth_value option \<Rightarrow> string" where
  "buildWebSocketUrl cfg item =
     (let token = getToken item;
          protocol = (if location_protocol cfg = ''https:'' then ''wss:'' else ''ws:'')
      in protocol @ ''//'' @ location_host cfg @ ''/ws?token=''
           @ (case token of None \<Rightarrow> ''null'' | Some t \<Rightarrow> t))"

subsection \<open>Message dispatch\<close>

definition field :: "message \<Rightarrow> string \<Rightarrow> string option" where
  "field m k = map_of (data m) k"

text \<open>\<open>a || b\<close> on optional strings: the empty string and \<open>undefined\<close> are falsy.\<close>

definition js_or :: "string option \<Rightarrow> string option \<Rightarrow> string option" where
  "js_or a b = (case a of None \<Rightarrow> b | Some x \<Rightarrow> (if x = [] then b else Some x))"

definition tmpl :: "string option \<Rightarrow> string" where
  "tmpl v = (case v of None \<Rightarrow> ''undefined'' | Some x \<Rightarrow> x)"

text \<open>The members of the \<open>event\<close> union of \<open>WebSocketMessage\<close>.\<close>

definition recognized_events :: "string list" where
  "recognized_events =
     [''connected'', ''session.new'', ''session.lost'', ''beacon.new'', ''beacon.checkin'',
      ''task_completed'', ''notification'', ''ping'', ''pong'', ''subscribed'', ''error'']"

definition unknown_event_log :: "message \<Rightarrow> effect" where
  "unknown_event_log m = ConsoleLog [Str ''Unknown WebSocket event:'', Opt (event m)]"

text \<open>The \<open>switch (message.event)\<close> of \<open>handleMessage\<close>, as the calls it makes, in order.\<close>

definition dispatch :: "message \<Rightarrow> effect list" where
  "dispatch m =
     (case event m of
        None \<Rightarrow> [unknown_event_log m]
      | Some e \<Rightarrow>
          if e = ''connected'' then
            [ConsoleLog [Str ''WebSocket connected, sliver status:'',
                         Opt (field m ''sliver_connected'')]]
          else if e = ''session.new'' then
            [InvalidateQueries [Some ''sessions''],
             InvalidateQueries [Some ''dashboard-stats''],
             Toast None (Some ''New Session Connected'')
               (Some (tmpl (js_or (field m ''name'') (field m ''id'')) @ '' connected from ''
                      @ tmpl (js_or (field m ''remote_address'') (Some ''unknown'')))),
             AddNotification ''session'' (Some ''New Session'')
               (Some (tmpl (js_or (field m ''name'') (field m ''id'')) @ '' connected from ''
                      @ tmpl (js_or (field m ''remote_address'') (Some ''unknown''))))
               (data m)]
          else if e = ''session.lost'' then
            [InvalidateQueries [Some ''sessions''],
             InvalidateQueries [Some ''dashboard-stats''],
             Toast (Some ''destructive'') (Some ''Session Disconnected'')
               (Some (''Session '' @ tmpl (field m ''id'') @ '' has disconnected'')),
             AddNotification ''warning'' (Some ''Session Disconnected'')
               (Some (''Session '' @ tmpl (field m ''id'') @ '' has disconnected''))
               (data m)]
          else if e = ''beacon.new'' then
            [InvalidateQueries [Some ''beacons''],
             InvalidateQueries [Some ''dashboard-stats''],
             Toast None (Some ''New Beacon'')
               (Some (tmpl (js_or (field m ''name'') (field m ''id'')) @ '' first check-in'')),
             AddNotification ''beacon'' (Some ''New Beacon'')
               (Some (tmpl (js_or (field m ''name'') (field m ''id''))
                      @ '' first check-in from ''
                      @ tmpl (js_or (field m ''remote_address'') (Some ''unknown''))))
               (data m)]
          else if e = ''beacon.checkin'' then
            [InvalidateQueries [Some ''beacons''],
             InvalidateQueries [Some ''dashboard-stats'']]
          else if e = ''task_completed'' then
            [InvalidateQueries [Some ''beacon-tasks'', field m ''beacon_id''],
             Toast None (Some ''Task Completed'')
               (Some (''Task '' @ tmpl (field m ''task_type'') @ '' completed for beacon ''
                      @ tmpl (field m ''beacon_name''))),
             AddNotification ''info'' (Some ''Task Completed'')
               (Some (''Task '' @ tmpl (field m ''task_type'') @ '' completed for ''
                      @ tmpl (field m ''beacon_name'')))
               (data m)]
          else if e = ''notification'' then
            [Toast (js_or (field m ''variant'') (Some ''default''))
               (field m ''title'') (field m ''message''),
             AddNotification
               (if field m ''variant'' = Some ''destructive'' then ''error'' else ''info'')
               (field m ''title'') (field m ''message'') (data m)]
          else if e = ''ping'' then []
          else if e = ''pong'' \<or> e = ''subscribed'' \<or> e = ''error'' then
            (if e = ''error''
             then [ConsoleError [Str ''WebSocket error:'', Opt (field m ''message'')]]
             else [])
          else [unknown_event_log m])"

text \<open>
  \<open>handleMessage\<close>: the whole body is inside \<open>try\<close>, and the \<open>catch\<close> only logs. On invalid
  JSON the parse throws before \<open>setLastMessage\<close>; on \<open>null\<close> the state is set and the read of
  \<open>message.event\<close> throws.
\<close>

definition handleMessage :: "hook_state \<Rightarrow> frame \<Rightarrow> hook_state" where
  "handleMessage s fr =
     (case fr of
        NotJson \<Rightarrow>
          emit [ConsoleError [Str ''Failed to parse WebSocket message:'', Exn ''SyntaxError'']] s
      | JsonNull \<Rightarrow>
          emit [ConsoleError [Str ''Failed to parse WebSocket message:'', Exn ''TypeError'']]
            (s\<lparr>lastMessage := None\<rparr>)
      | Envelope m \<Rightarrow> emit (dispatch m) (s\<lparr>lastMessage := Some m\<rparr>))"

subsection \<open>Sockets and timers\<close>

text \<open>
  \<open>WebSocket.close(code, reason)\<close>: a socket that is connecting or open starts closing;
  on a socket already closing or closed the call does nothing more.
\<close>

definition ws_close :: "nat \<Rightarrow> nat \<Rightarrow> string \<Rightarrow> hook_state \<Rightarrow> hook_state" where
  "ws_close i code reason s =
     (if i < length (sockets s) then
        emit [WsCloseCall i code reason]
          (s\<lparr>sockets := (sockets s)[i := (sockets s ! i)\<lparr>readyState :=
                (if readyState (sockets s ! i) = CONNECTING \<or> readyState (sockets s ! i) = OPEN
                 then CLOSING else readyState (sockets s ! i))\<rparr>]\<rparr>)
      else s)"

definition clearTimeout :: "nat \<Rightarrow> hook_state \<Rightarrow> hook_state" where
  "clearTimeout t s =
     (if t < length (timers s)
      then s\<lparr>timers := (timers s)[t := (timers s ! t)\<lparr>pending := False\<rparr>]\<rparr>
      else s)"

text \<open>\<open>setTimeout(openConnection, d)\<close>; the new timer is \<open>length (timers s)\<close>.\<close>

definition setTimeout :: "int \<Rightarrow> hook_state \<Rightarrow> hook_state" where
  "setTimeout d s = s\<lparr>timers := timers s @ [\<lparr>delay = d, pending = True\<rparr>]\<rparr>"

text \<open>
  \<open>new WebSocket(buildWebSocketUrl())\<close> followed by \<open>wsRef.current = ws\<close>. The URL is
  built from \<open>window.location\<close>, and the constructor is taken not to throw on it.
\<close>

definition new_socket :: "handler_kind \<Rightarrow> config \<Rightarrow> hook_state \<Rightarrow> hook_state" where
  "new_socket k cfg s =
     s\<lparr>sockets := sockets s @
          [\<lparr>readyState = CONNECTING, handlers = k, url = buildWebSocketUrl cfg (authItem s)\<rparr>],
       wsRef := Some (length (sockets s))\<rparr>"

text \<open>\<open>wsRef.current?.readyState === WebSocket.OPEN\<close>\<close>

definition ws_is_open :: "hook_state \<Rightarrow> bool" where
  "ws_is_open s =
     (case wsRef s of
        None \<Rightarrow> False
      | Some i \<Rightarrow> i < length (sockets s) \<and> readyState (sockets s ! i) = OPEN)"

subsection \<open>The callbacks of the connection effect\<close>

definition openConnection :: "config \<Rightarrow> hook_state \<Rightarrow> hook_state" where
  "openConnection cfg s =
     (if disposed s then s
      else if ws_is_open s then s
      else (case getToken (authItem s) of
              None \<Rightarrow> emit [ConsoleLog [Str ''No token available for WebSocket connection'']] s
            | Some tok \<Rightarrow> new_socket FromOpenConnection cfg s))"

definition onopen_openConnection :: "hook_state \<Rightarrow> hook_state" where
  "onopen_openConnection s =
     (emit [ConsoleLog [Str ''WebSocket connected'']] s)
       \<lparr>isConnected := True, reconnectCountRef := 0\<rparr>"

definition onerror :: "hook_state \<Rightarrow> hook_state" where
  "onerror s = emit [ConsoleError [Str ''WebSocket error:'', Exn ''Event'']] s"

definition onclose_openConnection ::
  "config \<Rightarrow> nat \<Rightarrow> string \<Rightarrow> hook_state \<Rightarrow> hook_state" where
  "onclose_openConnection cfg code reason s =
     (let s1 = (emit [ConsoleLog [Str ''WebSocket closed:'', Num (int code), Str reason]] s)
                 \<lparr>isConnected := False, wsRef := None\<rparr>
      in if \<not> disposed s1 \<and> code \<noteq> 1000
            \<and> int (reconnectCountRef s1) < reconnectAttempts cfg
         then
           (let s2 = s1\<lparr>reconnectCountRef := Suc (reconnectCountRef s1)\<rparr>;
                s3 = emit [ConsoleLog [Str ''Attempting reconnection '',
                                       Num (int (reconnectCountRef s2)), Str ''/'',
                                       Num (reconnectAttempts cfg)]] s2
            in (setTimeout (reconnectInterval cfg) s3)
                 \<lparr>reconnectTimeoutRef := Some (length (timers s3))\<rparr>)
         else s1)"

text \<open>
  \<open>handleStorageChange\<close>, the listener for storage events. \<open>key\<close> is \<open>None\<close> for the event
  of \<open>localStorage.clear()\<close>. The timer it starts is not kept in any ref.
\<close>

definition handleStorageChange ::
  "config \<Rightarrow> string option \<Rightarrow> auth_value option \<Rightarrow> hook_state \<Rightarrow> hook_state" where
  "handleStorageChange cfg key newValue s =
     (if key \<noteq> Some ''sliverui-auth'' then s
      else
        (let s1 = (case reconnectTimeoutRef s of
                     Some t \<Rightarrow> (clearTimeout t s)\<lparr>reconnectTimeoutRef := None\<rparr>
                   | None \<Rightarrow> s);
             s2 = (case wsRef s1 of
                     Some i \<Rightarrow> (ws_close i 1000 ''Token changed'' s1)\<lparr>wsRef := None\<rparr>
                   | None \<Rightarrow> s1);
             s3 = s2\<lparr>isConnected := False\<rparr>
         in (case newValue of
               None \<Rightarrow> s3
             | Some Malformed \<Rightarrow> s3
             | Some (AuthState None) \<Rightarrow> s3
             | Some (AuthState (Some t)) \<Rightarrow>
                 (if t \<noteq> [] then setTimeout 100 (s3\<lparr>reconnectCountRef := 0\<rparr>) else s3))))"

text \<open>The cleanup returned by the effect.\<close>

definition cleanup :: "hook_state \<Rightarrow> hook_state" where
  "cleanup s =
     (let s0 = s\<lparr>disposed := True\<rparr>;
          s1 = (case reconnectTimeoutRef s0 of
                  Some t \<Rightarrow> (clearTimeout t s0)\<lparr>reconnectTimeoutRef := None\<rparr>
                | None \<Rightarrow> s0);
          s2 = (case wsRef s1 of
                  Some i \<Rightarrow> (ws_close i 1000 ''Component unmounted'' s1)\<lparr>wsRef := None\<rparr>
                | None \<Rightarrow> s1)
      in s2\<lparr>isConnected := False\<rparr>)"

subsection \<open>The exported callbacks\<close>

definition onopen_connect :: "hook_state \<Rightarrow> hook_state" where
  "onopen_connect s = s\<lparr>isConnected := True, reconnectCountRef := 0\<rparr>"

definition onclose_connect :: "hook_state \<Rightarrow> hook_state" where
  "onclose_connect s = s\<lparr>isConnected := False, wsRef := None\<rparr>"

text \<open>\<open>connect\<close> installs \<open>onopen\<close>, \<open>onerror\<close> and \<open>onclose\<close> only; there is no \<open>onmessage\<close>.\<close>

definition connect :: "config \<Rightarrow> hook_state \<Rightarrow> hook_state" where
  "connect cfg s =
     (let s1 = (case wsRef s of
                  Some i \<Rightarrow> (ws_close i 1000 ''Manual reconnect'' s)\<lparr>wsRef := None\<rparr>
                | None \<Rightarrow> s);
          s2 = s1\<lparr>reconnectCountRef := 0\<rparr>
      in (case getToken (authItem s2) of
            None \<Rightarrow> s2
          | Some tok \<Rightarrow> new_socket FromConnect cfg s2))"

definition disconnect :: "hook_state \<Rightarrow> hook_state" where
  "disconnect s =
     (let s1 = (case reconnectTimeoutRef s of
                  Some t \<Rightarrow> (clearTimeout t s)\<lparr>reconnectTimeoutRef := None\<rparr>
                | None \<Rightarrow> s);
          s2 = (case wsRef s1 of
                  Some i \<Rightarrow> (ws_close i 1000 ''User initiated disconnect'' s1)\<lparr>wsRef := None\<rparr>
                | None \<Rightarrow> s1)
      in s2\<lparr>isConnected := False\<rparr>)"

text \<open>
  \<open>send\<close>. \<open>stringify\<close> stands for \<open>JSON.stringify\<close>, which returns the text or throws
  (\<open>None\<close>); an exception it throws leaves \<open>send\<close>, so the result is \<open>None\<close>.
\<close>

definition send :: "('d \<Rightarrow> string option) \<Rightarrow> hook_state \<Rightarrow> 'd \<Rightarrow> hook_state option" where
  "send stringify s d =
     (case wsRef s of
        None \<Rightarrow> Some (emit [ConsoleWarn [Str ''WebSocket is not connected'']] s)
      | Some i \<Rightarrow>
          if i < length (sockets s) \<and> readyState (sockets s ! i) = OPEN then
            (case stringify d of
               None \<Rightarrow> None
             | Some text \<Rightarrow> Some (emit [WsSend i text] s))
          else Some (emit [ConsoleWarn [Str ''WebSocket is not connected'']] s))"

subsection \<open>The event loop\<close>

datatype hook_event =
    WsOpen nat
  | WsMessage nat frame
  | WsError nat
  | WsClose nat nat string
  | TimerFired nat
  | StorageChange "string option" "auth_value option"
  | LocalStorageSet "auth_value option"
  | Connect
  | Disconnect
  | Unmount

text \<open>
  One turn of the event loop. The browser delivers \<open>open\<close> to a connecting socket,
  \<open>message\<close> to an open one, \<open>close\<close> (with a code of its choosing) and \<open>error\<close> to one not
  yet closed, and runs a timer that is still pending; an event that cannot occur leaves the
  state as it is. A storage event reports a change made in another document, and
  \<open>LocalStorageSet\<close> is a write in this one (no event is delivered for it). The storage
  listener exists from the start of the effect to its cleanup, and only with \<open>autoConnect\<close>.
\<close>

definition set_ready :: "nat \<Rightarrow> ready_state \<Rightarrow> hook_state \<Rightarrow> hook_state" where
  "set_ready i r s = s\<lparr>sockets := (sockets s)[i := (sockets s ! i)\<lparr>readyState := r\<rparr>]\<rparr>"

definition step :: "config \<Rightarrow> hook_state \<Rightarrow> hook_event \<Rightarrow> hook_state" where
  "step cfg s e =
     (case e of
        WsOpen i \<Rightarrow>
          if i < length (sockets s) \<and> readyState (sockets s ! i) = CONNECTING then
            (case handlers (sockets s ! i) of
               FromOpenConnection \<Rightarrow> onopen_openConnection (set_ready i OPEN s)
             | FromConnect \<Rightarrow> onopen_connect (set_ready i OPEN s))
          else s
      | WsMessage i fr \<Rightarrow>
          if i < length (sockets s) \<and> readyState (sockets s ! i) = OPEN then
            (case handlers (sockets s ! i) of
               FromOpenConnection \<Rightarrow> handleMessage s fr
             | FromConnect \<Rightarrow> s)
          else s
      | WsError i \<Rightarrow>
          if i < length (sockets s) \<and> readyState (sockets s ! i) \<noteq> CLOSED
          then onerror s else s
      | WsClose i code reason \<Rightarrow>
          if i < length (sockets s) \<and> readyState (sockets s ! i) \<noteq> CLOSED then
            (case handlers (sockets s ! i) of
               FromOpenConnection \<Rightarrow> onclose_openConnection cfg code reason (set_ready i CLOSED s)
             | FromConnect \<Rightarrow> onclose_connect (set_ready i CLOSED s))
          else s
      | TimerFired t \<Rightarrow>
          if t < length (timers s) \<and> pending (timers s ! t)
          then openConnection cfg (clearTimeout t s) else s
      | StorageChange key newValue \<Rightarrow>
          (let s1 = (if key = Some ''sliverui-auth'' then s\<lparr>authItem := newValue\<rparr>
                     else if key = None then s\<lparr>authItem := None\<rparr> else s)
           in if autoConnect cfg \<and> \<not> disposed s
              then handleStorageChange cfg key newValue s1 else s1)
      | LocalStorageSet v \<Rightarrow> s\<lparr>authItem := v\<rparr>
      | Connect \<Rightarrow> connect cfg s
      | Disconnect \<Rightarrow> disconnect s
      | Unmount \<Rightarrow> if autoConnect cfg \<and> \<not> disposed s then cleanup s else s)"

text \<open>The effect starts with \<open>openConnection()\<close>, unless \<open>autoConnect\<close> is off.\<close>

definition mount :: "config \<Rightarrow> auth_value option \<Rightarrow> hook_state" where
  "mount cfg item = (if autoConnect cfg then openConnection cfg (initial item) else initial item)"

definition run :: "config \<Rightarrow> auth_value option \<Rightarrow> hook_event list \<Rightarrow> hook_state" where
  "run cfg item evs = foldl (step cfg) (mount cfg item) evs"

subsection \<open>Notions used to state the properties\<close>

text \<open>
  The reconnect delay as the specification words it (section 4.5):
  \<open>min(base * 2^retryCount, cap) + jitter\<close>. Nothing in the source computes it; it is
  here to be compared with the delay the source passes to \<open>setTimeout\<close>.
\<close>

definition spec_backoff_delay :: "int \<Rightarrow> int \<Rightarrow> nat \<Rightarrow> int \<Rightarrow> int" where
  "spec_backoff_delay base cap retryCount jitter = min (base * 2 ^ retryCount) cap + jitter"

text \<open>
  One failed attempt seen from outside: the socket in \<open>wsRef\<close> closes with \<open>code\<close>, and then
  the timer recorded in \<open>reconnectTimeoutRef\<close> runs (a timer no longer pending cannot run).
\<close>

definition fail_once :: "config \<Rightarrow> hook_state \<Rightarrow> nat \<Rightarrow> hook_state" where
  "fail_once cfg s code =
     (case wsRef s of
        None \<Rightarrow> s
      | Some i \<Rightarrow>
          (let s1 = step cfg s (WsClose i code [])
           in (case reconnectTimeoutRef s1 of
                 None \<Rightarrow> s1
               | Some t \<Rightarrow> step cfg s1 (TimerFired t))))"

definition consecutive_failures :: "config \<Rightarrow> hook_state \<Rightarrow> nat list \<Rightarrow> hook_state" where
  "consecutive_failures cfg s codes = foldl (fail_once cfg) s codes"

text \<open>The events whose handlers assign \<open>reconnectCountRef.current = 0\<close>.\<close>

fun lowers_retryCount :: "hook_event \<Rightarrow> bool" where
  "lowers_retryCount (WsOpen i) = True"
| "lowers_retryCount Connect = True"
| "lowers_retryCount (StorageChange key newValue) =
     (key = Some ''sliverui-auth'' \<and> getToken newValue \<noteq> None)"
| "lowers_retryCount e = False"

text \<open>
  A connection attempt made by \<open>openConnection\<close> is under way or established: \<open>wsRef\<close>
  holds a socket with the effect's handlers that has not closed, the effect is not disposed,
  a token is stored, and the timer recorded in \<open>reconnectTimeoutRef\<close> (if any) is not
  pending.
\<close>

definition attempt_in_flight :: "hook_state \<Rightarrow> bool" where
  "attempt_in_flight s =
     (case wsRef s of
        None \<Rightarrow> False
      | Some i \<Rightarrow>
          i < length (sockets s) \<and> readyState (sockets s ! i) \<noteq> CLOSED
          \<and> handlers (sockets s ! i) = FromOpenConnection
          \<and> \<not> disposed s \<and> getToken (authItem s) \<noteq> None
          \<and> (case reconnectTimeoutRef s of
                None \<Rightarrow> True
              | Some t \<Rightarrow> \<not> (t < length (timers s) \<and> pending (timers s ! t))))"

text \<open>Options, storage contents, event sequences and states for the concrete runs below.\<close>

definition options_1s :: config where
  "options_1s =
     \<lparr>autoConnect = True, reconnectAttempts = 5, reconnectInterval = 1000,
      location_protocol = ''https:'', location_host = ''console.example''\<rparr>"

definition options_max1 :: config where
  "options_max1 = options_1s\<lparr>reconnectAttempts := 1\<rparr>"

definition stored_token :: "string \<Rightarrow> auth_value option" where
  "stored_token t = Some (AuthState (Some t))"

text \<open>
  Attempt after attempt fails: each socket closes abnormally (code 1006) and the retry
  timer runs. \<open>four_failures\<close> and \<open>five_failures\<close> end with an attempt under way,
  \<open>six_failures\<close> with the close of the sixth socket.
\<close>

definition four_failures :: "hook_event list" where
  "four_failures =
     [WsClose 0 1006 [], TimerFired 0, WsClose 1 1006 [], TimerFired 1,
      WsClose 2 1006 [], TimerFired 2, WsClose 3 1006 [], TimerFired 3]"

definition five_failures :: "hook_event list" where
  "five_failures = four_failures @ [WsClose 4 1006 [], TimerFired 4]"

definition six_failures :: "hook_event list" where
  "six_failures = five_failures @ [WsClose 5 1006 []]"

text \<open>Waiting to reconnect after an established connection was lost.\<close>

definition waiting_state :: hook_state where
  "waiting_state = run options_1s (stored_token ''t1'') [WsOpen 0, WsClose 0 1006 []]"

text \<open>Connected at the third attempt.\<close>

definition connected_state :: hook_state where
  "connected_state =
     run options_1s (stored_token ''t1'')
       [WsClose 0 1006 [], TimerFired 0, WsClose 1 1006 [], TimerFired 1, WsOpen 2]"

section \<open>Tunnel control\<close>

subsection \<open>The caller in the console: \<open>CDPConnect\<close>\<close>

text \<open>
  The component state of \<open>CDPConnect\<close> and its stop mutation. The request itself
  (\<open>browserOpsApi.stopCDP\<close>) is made by the API client and answered by the server; here it is
  the parameter \<open>api\<close>, from the tunnel id to the error thrown or to success. An error is
  represented by its message, and \<open>getApiErrorMessage\<close> (of the API client module) is a
  parameter too.
\<close>

record cdp_urls =
  local_url :: string
  devtools_frontend :: string
  ws_debug_url :: string
  json_url :: string

record cdp_connect =
  cdpActive :: bool
  tunnelId :: "nat option"
  cdpUrls :: "cdp_urls option"
  toasts :: "(string option \<times> string \<times> string option) list"

definition stopMutation ::
  "(string \<Rightarrow> string) \<Rightarrow> (nat \<Rightarrow> string + unit) \<Rightarrow> cdp_connect \<Rightarrow> cdp_connect" where
  "stopMutation getApiErrorMessage api c =
     (let outcome = (case tunnelId c of
                       None \<Rightarrow> Inl ''No active tunnel''
                     | Some tid \<Rightarrow> api tid)
      in (case outcome of
            Inr u \<Rightarrow>
              c\<lparr>cdpActive := False, tunnelId := None, cdpUrls := None,
                toasts := toasts c @ [(None, ''CDP tunnel stopped'', None)]\<rparr>
          | Inl err \<Rightarrow>
              c\<lparr>toasts := toasts c
                   @ [(Some ''destructive'', ''Failed to stop CDP tunnel'',
                       Some (getApiErrorMessage err))]\<rparr>))"

subsection \<open>\<open>StopTunnel\<close>\<close>

datatype tunnel_kind = Socks5 | Forward

datatype tunnel_state = Starting | Active | Stopping | Closed | Failed

record tunnel =
  tunnel_id :: nat
  kind :: tunnel_kind
  sessionId :: string
  localPort :: nat
  remotePort :: nat
  state :: tunnel_state
  createdAt :: nat
  bytesIn :: nat
  bytesOut :: nat

record sub_stream =
  parent :: nat
  streamId :: nat
  destination :: string

datatype teardown =
    CloseLocalListener nat
  | ChannelTransportClose nat
  | ForceCloseSubStream nat nat

datatype stop_result = StopOk | StopError

record tunnel_manager =
  registry :: "tunnel list"
  subStreams :: "sub_stream list"

text \<open>
  Modelled from the spec: the server operation \<open>StopTunnel(sessionId, tunnelId)\<close> of the
  TunnelManager, which is not among the source files (only its caller \<open>stopMutation\<close> is).
  Sections 3 and 4.1: stopping an already \<open>Closed\<close> or \<open>Failed\<close> tunnel returns success
  without side effects; otherwise the tunnel goes \<open>Active \<rightarrow> Stopping \<rightarrow> Closed\<close>, the local
  listener is closed, \<open>ChannelTransport.Close\<close> is called and the tunnel's SubStreams are
  force-closed. The specification names no result for an id the session does not own; the
  model returns the error there and changes nothing. The result is the answer, the manager
  afterwards, and the teardown actions performed.
\<close>

definition StopTunnel ::
  "string \<Rightarrow> nat \<Rightarrow> tunnel_manager \<Rightarrow> stop_result \<times> tunnel_manager \<times> teardown list" where
  "StopTunnel sid tid m =
     (case find (\<lambda>t. tunnel_id t = tid \<and> sessionId t = sid) (registry m) of
        None \<Rightarrow> (StopError, m, [])
      | Some t \<Rightarrow>
          if state t = Closed \<or> state t = Failed then (StopOk, m, [])
          else
            (StopOk,
             m\<lparr>registry := map (\<lambda>u. if tunnel_id u = tid \<and> sessionId u = sid
                                      then u\<lparr>state := Closed\<rparr> else u) (registry m),
               subStreams := filter (\<lambda>x. parent x \<noteq> tid) (subStreams m)\<rparr>,
             [CloseLocalListener (localPort t), ChannelTransportClose tid]
               @ map (\<lambda>x. ForceCloseSubStream tid (streamId x))
                   (filter (\<lambda>x. parent x = tid) (subStreams m))))"

text \<open>A manager with an active SOCKS5 tunnel carrying two SubStreams and a failed forward.\<close>

definition example_manager :: tunnel_manager where
  "example_manager =
     \<lparr>registry =
        [\<lparr>tunnel_id = 1, kind = Socks5, sessionId = ''abc'', localPort = 1080, remotePort = 0,
          state = Active, createdAt = 0, bytesIn = 10, bytesOut = 20\<rparr>,
         \<lparr>tunnel_id = 2, kind = Forward, sessionId = ''abc'', localPort = 9222,
          remotePort = 9222, state = Failed, createdAt = 5, bytesIn = 0, bytesOut = 0\<rparr>],
      subStreams =
        [\<lparr>parent = 1, streamId = 7, destination = ''10.0.0.5:443''\<rparr>,
         \<lparr>parent = 1, streamId = 8, destination = ''intranet.example:80''\<rparr>]\<rparr>"

definition example_manager_stopped :: tunnel_manager where
  "example_manager_stopped =
     \<lparr>registry =
        [\<lparr>tunnel_id = 1, kind = Socks5, sessionId = ''abc'', localPort = 1080, remotePort = 0,
          state = Closed, createdAt = 0, bytesIn = 10, bytesOut = 20\<rparr>,
         \<lparr>tunnel_id = 2, kind = Forward, sessionId = ''abc'', localPort = 9222,
          remotePort = 9222, state = Failed, createdAt = 5, bytesIn = 0, bytesOut = 0\<rparr>],
      subStreams = []\<rparr>"

section \<open>Properties of the push-channel hook\<close>

lemmas hook_defs =
  step_def onclose_openConnection_def onclose_connect_def onopen_openConnection_def
  onopen_connect_def set_ready_def emit_def setTimeout_def clearTimeout_def
  openConnection_def ws_is_open_def new_socket_def

lemmas all_defs = hook_defs onerror_def handleMessage_def handleStorageChange_def connect_def
  disconnect_def cleanup_def ws_close_def

subsection \<open>Incoming frames\<close>

text \<open>
  C10. A frame whose payload is not valid JSON is caught and logged, and nothing else
  changes: \<open>handleMessage\<close> returns the state it was given with one \<open>console.error\<close> call
  added, so \<open>lastMessage\<close> keeps its value, no query is invalidated, no toast or
  notification is made, the handler returns normally, and every socket is as it was. (A
  socket made by \<open>connect\<close> has no message handler at all: there the state is unchanged
  altogether.)
\<close>

theorem invalid_json_frame_only_logged:
  "handleMessage s NotJson =
     s\<lparr>effects := effects s
          @ [ConsoleError [Str ''Failed to parse WebSocket message:'', Exn ''SyntaxError'']]\<rparr>
   \<and> lastMessage (handleMessage s NotJson) = lastMessage s
   \<and> sockets (handleMessage s NotJson) = sockets s
   \<and> wsRef (handleMessage s NotJson) = wsRef s
   \<and> isConnected (handleMessage s NotJson) = isConnected s
   \<and> (step cfg s (WsMessage i NotJson) = handleMessage s NotJson
        \<or> step cfg s (WsMessage i NotJson) = s)"
  by (simp add: handleMessage_def emit_def step_def split: handler_kind.split)

lemma dispatch_unknown:
  "event m \<notin> Some ` set recognized_events \<Longrightarrow> dispatch m = [unknown_event_log m]"
  by (auto simp: dispatch_def recognized_events_def split: option.split)

text \<open>
  C4. A message whose \<open>event\<close> is outside the recognized set is logged and otherwise
  ignored: \<open>handleMessage\<close> records it as \<open>lastMessage\<close> (as it does for every parsed
  message, before the \<open>switch\<close>) and makes one \<open>console.log\<close> call. No query is invalidated
  and no toast or notification is made (no side effects), \<open>isConnected\<close>, the retry counter
  and the timers are as before (no error state), and no socket is touched (the connection
  is not closed). A frame delivered by the event loop is either handled so or, on a socket
  made by \<open>connect\<close> (which has no message handler), leaves the state as it is.
\<close>

theorem unknown_event_logged_and_ignored:
  assumes "event m \<notin> Some ` set recognized_events"
  shows "handleMessage s (Envelope m) =
           s\<lparr>lastMessage := Some m,
             effects := effects s
               @ [ConsoleLog [Str ''Unknown WebSocket event:'', Opt (event m)]]\<rparr>
         \<and> sockets (handleMessage s (Envelope m)) = sockets s
         \<and> wsRef (handleMessage s (Envelope m)) = wsRef s
         \<and> isConnected (handleMessage s (Envelope m)) = isConnected s
         \<and> reconnectCountRef (handleMessage s (Envelope m)) = reconnectCountRef s
         \<and> timers (handleMessage s (Envelope m)) = timers s
         \<and> (step cfg s (WsMessage i (Envelope m)) = handleMessage s (Envelope m)
              \<or> step cfg s (WsMessage i (Envelope m)) = s)"
  using dispatch_unknown[OF assms]
  by (simp add: handleMessage_def emit_def unknown_event_log_def step_def
           split: handler_kind.split)

text \<open>The event \<open>tunnel.failed\<close> arriving on an open connection.\<close>

theorem unknown_event_logged_and_ignored_witness:
  "event \<lparr>event = Some ''tunnel.failed'', data = [(''id'', ''7'')]\<rparr>
      \<notin> Some ` set recognized_events
   \<and> handleMessage (run options_1s (stored_token ''t1'') [WsOpen 0])
        (Envelope \<lparr>event = Some ''tunnel.failed'', data = [(''id'', ''7'')]\<rparr>) =
      (run options_1s (stored_token ''t1'') [WsOpen 0])
        \<lparr>lastMessage := Some \<lparr>event = Some ''tunnel.failed'', data = [(''id'', ''7'')]\<rparr>,
         effects := effects (run options_1s (stored_token ''t1'') [WsOpen 0])
            @ [ConsoleLog [Str ''Unknown WebSocket event:'', Opt (Some ''tunnel.failed'')]]\<rparr>"
proof -
  have h: "event \<lparr>event = Some ''tunnel.failed'', data = [(''id'', ''7'')]\<rparr>
      \<notin> Some ` set recognized_events"
    by (simp add: recognized_events_def)
  show ?thesis
    using h unknown_event_logged_and_ignored
              [OF h, of "run options_1s (stored_token ''t1'') [WsOpen 0]"]
    by simp
qed

subsection \<open>Sending\<close>

text \<open>
  C9. \<open>send(data)\<close> while the socket in \<open>wsRef\<close> is not open (or there is none) is a safe
  no-op for every \<open>data\<close>: it returns normally, having only called \<open>console.warn\<close>; nothing
  is passed to a socket and nothing is kept for later. When the socket is open, the text
  \<open>JSON.stringify(data)\<close> is sent on it (and an exception of \<open>JSON.stringify\<close> leaves
  \<open>send\<close>).
\<close>

theorem send_not_open_is_noop:
  "(\<not> ws_is_open s \<longrightarrow>
      send stringify s d =
        Some (s\<lparr>effects := effects s @ [ConsoleWarn [Str ''WebSocket is not connected'']]\<rparr>))
   \<and> (ws_is_open s \<longrightarrow>
      (\<exists>i. wsRef s = Some i \<and>
        send stringify s d =
          map_option (\<lambda>text. s\<lparr>effects := effects s @ [WsSend i text]\<rparr>) (stringify d)))"
  by (auto simp: send_def ws_is_open_def emit_def split: option.splits)

text \<open>Sending while the first attempt is still connecting, and after it has opened.\<close>

theorem send_not_open_is_noop_witness:
  "\<not> ws_is_open (run options_1s (stored_token ''t1'') [])
   \<and> send (\<lambda>d. Some d) (run options_1s (stored_token ''t1'') []) ''ping''
       = Some ((run options_1s (stored_token ''t1'') [])
           \<lparr>effects := effects (run options_1s (stored_token ''t1'') [])
              @ [ConsoleWarn [Str ''WebSocket is not connected'']]\<rparr>)
   \<and> ws_is_open (run options_1s (stored_token ''t1'') [WsOpen 0])
   \<and> wsRef (run options_1s (stored_token ''t1'') [WsOpen 0]) = Some 0
   \<and> send (\<lambda>d. Some d) (run options_1s (stored_token ''t1'') [WsOpen 0]) ''ping''
       = Some ((run options_1s (stored_token ''t1'') [WsOpen 0])
           \<lparr>effects := effects (run options_1s (stored_token ''t1'') [WsOpen 0])
              @ [WsSend 0 ''ping'']\<rparr>)"
proof -
  have a: "\<not> ws_is_open (run options_1s (stored_token ''t1'') [])"
    by code_simp
  have b: "ws_is_open (run options_1s (stored_token ''t1'') [WsOpen 0])"
    "wsRef (run options_1s (stored_token ''t1'') [WsOpen 0]) = Some 0"
    by code_simp+
  show ?thesis
    using a b
      send_not_open_is_noop[of "run options_1s (stored_token ''t1'') []" "\<lambda>d. Some d" "''ping''"]
      send_not_open_is_noop[of "run options_1s (stored_token ''t1'') [WsOpen 0]"
         "\<lambda>d. Some d" "''ping''"]
    by simp
qed

subsection \<open>Closing and retrying\<close>

text \<open>
  What \<open>onclose\<close> of a socket made by \<open>openConnection\<close> does: it schedules one retry after
  \<open>reconnectInterval\<close> when the effect is not disposed, the code is not 1000 and the counter
  is below \<open>reconnectAttempts\<close>, and nothing otherwise.
\<close>

lemma close_schedules_retry:
  assumes "i < length (sockets s)" "readyState (sockets s ! i) \<noteq> CLOSED"
    "handlers (sockets s ! i) = FromOpenConnection" "\<not> disposed s" "code \<noteq> 1000"
    "int (reconnectCountRef s) < reconnectAttempts cfg"
  shows "step cfg s (WsClose i code reason) =
     s\<lparr>sockets := (sockets s)[i := (sockets s ! i)\<lparr>readyState := CLOSED\<rparr>],
       effects := effects s @ [ConsoleLog [Str ''WebSocket closed:'', Num (int code), Str reason],
          ConsoleLog [Str ''Attempting reconnection '', Num (int (Suc (reconnectCountRef s))),
                      Str ''/'', Num (reconnectAttempts cfg)]],
       isConnected := False, wsRef := None,
       reconnectCountRef := Suc (reconnectCountRef s),
       timers := timers s @ [\<lparr>delay = reconnectInterval cfg, pending = True\<rparr>],
       reconnectTimeoutRef := Some (length (timers s))\<rparr>"
  using assms by (simp add: hook_defs Let_def)

lemma close_without_retry:
  assumes "i < length (sockets s)" "readyState (sockets s ! i) \<noteq> CLOSED"
    "handlers (sockets s ! i) = FromOpenConnection"
    "disposed s \<or> code = 1000 \<or> reconnectAttempts cfg \<le> int (reconnectCountRef s)"
  shows "step cfg s (WsClose i code reason) =
     s\<lparr>sockets := (sockets s)[i := (sockets s ! i)\<lparr>readyState := CLOSED\<rparr>],
       effects := effects s @ [ConsoleLog [Str ''WebSocket closed:'', Num (int code), Str reason]],
       isConnected := False, wsRef := None\<rparr>"
  using assms by (auto simp add: hook_defs Let_def)

text \<open>A socket made by \<open>connect\<close> is never retried, whatever the code.\<close>

lemma close_of_connect_socket:
  assumes "i < length (sockets s)" "readyState (sockets s ! i) \<noteq> CLOSED"
    "handlers (sockets s ! i) = FromConnect"
  shows "step cfg s (WsClose i code reason) =
     s\<lparr>sockets := (sockets s)[i := (sockets s ! i)\<lparr>readyState := CLOSED\<rparr>],
       isConnected := False, wsRef := None\<rparr>"
  using assms by (simp add: hook_defs)

lemma fail_once_retry:
  assumes "attempt_in_flight s" "code \<noteq> 1000"
    "int (reconnectCountRef s) < reconnectAttempts cfg"
  shows "attempt_in_flight (fail_once cfg s code)
       \<and> reconnectCountRef (fail_once cfg s code) = Suc (reconnectCountRef s)
       \<and> timers (fail_once cfg s code)
           = timers s @ [\<lparr>delay = reconnectInterval cfg, pending = False\<rparr>]"
proof -
  from assms(1) obtain i where i: "wsRef s = Some i" "i < length (sockets s)"
    "readyState (sockets s ! i) \<noteq> CLOSED" "handlers (sockets s ! i) = FromOpenConnection"
    "\<not> disposed s" "getToken (authItem s) \<noteq> None"
    by (auto simp: attempt_in_flight_def split: option.splits)
  note c = close_schedules_retry[OF i(2,3,4,5) assms(2,3), of "[]"]
  show ?thesis
    using i unfolding fail_once_def i(1) option.case Let_def c
    by (auto simp: attempt_in_flight_def hook_defs nth_append split: option.splits)
qed

lemma fail_once_exhausted:
  assumes "attempt_in_flight s"
    "reconnectAttempts cfg \<le> int (reconnectCountRef s)"
  shows "wsRef (fail_once cfg s code) = None
       \<and> reconnectCountRef (fail_once cfg s code) = reconnectCountRef s
       \<and> timers (fail_once cfg s code) = timers s"
proof -
  from assms(1) obtain i where i: "wsRef s = Some i" "i < length (sockets s)"
    "readyState (sockets s ! i) \<noteq> CLOSED" "handlers (sockets s ! i) = FromOpenConnection"
    "\<not> disposed s" "getToken (authItem s) \<noteq> None"
    and r: "\<And>t. reconnectTimeoutRef s = Some t
              \<Longrightarrow> \<not> (t < length (timers s) \<and> pending (timers s ! t))"
    by (auto simp: attempt_in_flight_def split: option.splits)
  have c: "step cfg s (WsClose i code []) =
     s\<lparr>sockets := (sockets s)[i := (sockets s ! i)\<lparr>readyState := CLOSED\<rparr>],
       effects := effects s @ [ConsoleLog [Str ''WebSocket closed:'', Num (int code), Str []]],
       isConnected := False, wsRef := None\<rparr>"
    by (rule close_without_retry[OF i(2,3,4)]) (use assms(2) in simp)
  show ?thesis
    using i r unfolding fail_once_def i(1) option.case Let_def c
    by (auto simp: step_def split: option.splits)
qed

lemma fail_once_idle: "wsRef s = None \<Longrightarrow> fail_once cfg s code = s"
  by (simp add: fail_once_def)

lemma consecutive_failures_idle:
  "wsRef s = None \<Longrightarrow> consecutive_failures cfg s codes = s"
  by (induction codes) (simp_all add: consecutive_failures_def fail_once_idle)

lemma consecutive_failures_Cons:
  "consecutive_failures cfg s (c # codes) = consecutive_failures cfg (fail_once cfg s c) codes"
  by (simp add: consecutive_failures_def)

text \<open>
  However many attempts fail in a row, the timers started are one per failure up to the
  remaining budget, all with the delay \<open>reconnectInterval\<close>.
\<close>

lemma consecutive_failures_timers:
  assumes "attempt_in_flight s" "list_all (\<lambda>c. c \<noteq> 1000) codes"
  shows "timers (consecutive_failures cfg s codes) =
           timers s @ replicate
             (min (length codes) (nat (reconnectAttempts cfg - int (reconnectCountRef s))))
             \<lparr>delay = reconnectInterval cfg, pending = False\<rparr>"
  using assms
proof (induction codes arbitrary: s)
  case Nil
  then show ?case by (simp add: consecutive_failures_def)
next
  case (Cons c codes)
  show ?case
  proof (cases "int (reconnectCountRef s) < reconnectAttempts cfg")
    case True
    from Cons.prems have c: "c \<noteq> 1000" and rest: "list_all (\<lambda>c. c \<noteq> 1000) codes"
      by simp_all
    note r = fail_once_retry[OF Cons.prems(1) c True]
    have n: "nat (reconnectAttempts cfg - int (reconnectCountRef s))
               = Suc (nat (reconnectAttempts cfg - int (Suc (reconnectCountRef s))))"
      using True by simp
    show ?thesis
      using Cons.IH[of "fail_once cfg s c"] r rest
      by (simp add: consecutive_failures_Cons n replicate_app_Cons_same del: of_nat_Suc)
  next
    case False
    then have e: "reconnectAttempts cfg \<le> int (reconnectCountRef s)" by simp
    note x = fail_once_exhausted[OF Cons.prems(1) e, of c]
    have "consecutive_failures cfg s (c # codes) = fail_once cfg s c"
      using x by (simp add: consecutive_failures_Cons consecutive_failures_idle)
    then show ?thesis using x e by simp
  qed
qed

lemma mount_attempt_in_flight:
  "autoConnect cfg \<Longrightarrow> getToken item \<noteq> None \<Longrightarrow> attempt_in_flight (mount cfg item)"
  by (auto simp: mount_def initial_def attempt_in_flight_def hook_defs)

lemma mount_fields:
  "timers (mount cfg item) = []" "reconnectCountRef (mount cfg item) = 0"
  by (auto simp: mount_def initial_def hook_defs split: option.splits)

text \<open>
  C1, as the source has it. For every sequence of consecutive connection failures (closes
  with a code other than 1000, each followed by the retry timer), the delay of every
  reconnect timer started is the configured \<open>reconnectInterval\<close> (default 3000 ms), whatever
  the retry count: there is no doubling, no cap and no jitter. At most
  \<open>reconnectAttempts - retryCount\<close> timers are started, so with \<open>reconnectAttempts = 5\<close> a
  sixth consecutive failure starts none.
\<close>

theorem reconnect_delay_is_reconnectInterval:
  assumes "attempt_in_flight s" and "list_all (\<lambda>c. c \<noteq> 1000) codes"
  shows "map delay (drop (length (timers s)) (timers (consecutive_failures cfg s codes))) =
           replicate
             (min (length codes) (nat (reconnectAttempts cfg - int (reconnectCountRef s))))
             (reconnectInterval cfg)"
  by (simp add: consecutive_failures_timers[OF assms])

text \<open>Six failures in a row from the start, with an interval of one second and five attempts.\<close>

theorem reconnect_delay_is_reconnectInterval_witness:
  "attempt_in_flight (mount options_1s (stored_token ''t1''))
   \<and> list_all (\<lambda>c. c \<noteq> 1000) [1006, 1006, 1001, 1006, 1011, 1006::nat]
   \<and> map delay (drop (length (timers (mount options_1s (stored_token ''t1''))))
        (timers (consecutive_failures options_1s (mount options_1s (stored_token ''t1''))
                   [1006, 1006, 1001, 1006, 1011, 1006])))
       = [1000, 1000, 1000, 1000, 1000]"
proof -
  have a: "attempt_in_flight (mount options_1s (stored_token ''t1''))"
    by code_simp
  have b: "list_all (\<lambda>c. c \<noteq> 1000) [1006, 1006, 1001, 1006, 1011, 1006::nat]"
    by simp
  have c: "replicate (min (length [1006, 1006, 1001, 1006, 1011, 1006::nat])
             (nat (reconnectAttempts options_1s
                   - int (reconnectCountRef (mount options_1s (stored_token ''t1''))))))
             (reconnectInterval options_1s) = [1000, 1000, 1000, 1000, 1000]"
    by code_simp
  show ?thesis
    using reconnect_delay_is_reconnectInterval[OF a b, of options_1s] a b
    unfolding c by simp
qed

text \<open>
  C1 as stated fails. With base 1 s and five attempts the delays of the timers started by
  six consecutive failures are 1000, 1000, 1000, 1000, 1000 ms: not strictly increasing, and
  from the second on below \<open>min(base * 2^retryCount, cap)\<close> even with no jitter added.
\<close>

theorem reconnect_delay_not_exponential:
  "map delay (timers (run options_1s (stored_token ''t1'') six_failures))
     = [1000, 1000, 1000, 1000, 1000]
   \<and> [spec_backoff_delay 1000 30000 0 0, spec_backoff_delay 1000 30000 1 0,
       spec_backoff_delay 1000 30000 2 0, spec_backoff_delay 1000 30000 3 0,
       spec_backoff_delay 1000 30000 4 0] = [1000, 2000, 4000, 8000, 16000]
   \<and> \<not> sorted_wrt (<) (map delay (timers (run options_1s (stored_token ''t1'') six_failures)))"
  by code_simp

subsection \<open>The retry counter\<close>

lemma step_count_cases:
  "reconnectCountRef (step cfg s e) = reconnectCountRef s
   \<or> (reconnectCountRef (step cfg s e) = 0 \<and> lowers_retryCount e)
   \<or> (reconnectCountRef (step cfg s e) = Suc (reconnectCountRef s)
        \<and> int (reconnectCountRef s) < reconnectAttempts cfg)"
  by (cases e)
     (auto simp: all_defs Let_def getToken_def
           split: option.splits handler_kind.splits auth_value.splits frame.splits)

lemma step_count_bound:
  assumes "0 \<le> reconnectAttempts cfg" "int (reconnectCountRef s) \<le> reconnectAttempts cfg"
  shows "int (reconnectCountRef (step cfg s e)) \<le> reconnectAttempts cfg"
  using step_count_cases[of cfg s e] assms by auto

lemma foldl_count_bound:
  assumes "0 \<le> reconnectAttempts cfg" "int (reconnectCountRef s) \<le> reconnectAttempts cfg"
  shows "int (reconnectCountRef (foldl (step cfg) s evs)) \<le> reconnectAttempts cfg"
  using assms(2)
  by (induction evs arbitrary: s) (simp_all add: step_count_bound[OF assms(1)])

lemma step_timer_sources:
  assumes "reconnectAttempts cfg \<le> int (reconnectCountRef s)"
    "length (timers s) < length (timers (step cfg s e))"
  shows "\<exists>v. e = StorageChange (Some ''sliverui-auth'') v \<and> getToken v \<noteq> None"
  using assms
  by (cases e)
     (auto simp: all_defs Let_def getToken_def
           split: option.splits handler_kind.splits auth_value.splits frame.splits if_splits)

text \<open>
  C2, as the source has it. With a configured maximum \<open>reconnectAttempts \<ge> 0\<close> (default 5),
  the retry counter never exceeds the maximum in any state the hook reaches. While the
  counter is at the maximum, no close of a socket (and no other event but a credential
  change that carries a token) starts a timer. The counter goes down, and then to 0, only
  on a socket opening (\<open>onopen\<close>), on \<open>connect()\<close>, or on a credential change that carries a
  token.
\<close>

theorem retryCount_bounded:
  assumes "0 \<le> reconnectAttempts cfg"
  shows "int (reconnectCountRef (run cfg item evs)) \<le> reconnectAttempts cfg
    \<and> (reconnectAttempts cfg \<le> int (reconnectCountRef s)
          \<and> length (timers s) < length (timers (step cfg s e))
        \<longrightarrow> (\<exists>v. e = StorageChange (Some ''sliverui-auth'') v \<and> getToken v \<noteq> None))
    \<and> (reconnectCountRef (step cfg s e) < reconnectCountRef s
        \<longrightarrow> lowers_retryCount e \<and> reconnectCountRef (step cfg s e) = 0)"
proof (intro conjI impI)
  have "int (reconnectCountRef (mount cfg item)) \<le> reconnectAttempts cfg"
    using assms by (simp add: mount_fields)
  then show "int (reconnectCountRef (run cfg item evs)) \<le> reconnectAttempts cfg"
    unfolding run_def by (rule foldl_count_bound[OF assms])
next
  assume "reconnectAttempts cfg \<le> int (reconnectCountRef s)
          \<and> length (timers s) < length (timers (step cfg s e))"
  then show "\<exists>v. e = StorageChange (Some ''sliverui-auth'') v \<and> getToken v \<noteq> None"
    using step_timer_sources by blast
next
  assume "reconnectCountRef (step cfg s e) < reconnectCountRef s"
  then show "lowers_retryCount e"
    using step_count_cases[of cfg s e] by auto
next
  assume "reconnectCountRef (step cfg s e) < reconnectCountRef s"
  then show "reconnectCountRef (step cfg s e) = 0"
    using step_count_cases[of cfg s e] by auto
qed

text \<open>
  After five failures the counter is at the maximum 5 with the last attempt under way; a
  credential change then starts a timer, and the opening of the socket takes the counter
  to 0.
\<close>

theorem retryCount_bounded_witness:
  "0 \<le> reconnectAttempts options_1s
   \<and> int (reconnectCountRef (run options_1s (stored_token ''t1'') five_failures))
       = reconnectAttempts options_1s
   \<and> length (timers (run options_1s (stored_token ''t1'') five_failures))
       < length (timers (step options_1s (run options_1s (stored_token ''t1'') five_failures)
                          (StorageChange (Some ''sliverui-auth'') (stored_token ''t2''))))
   \<and> getToken (stored_token ''t2'') \<noteq> None
   \<and> reconnectCountRef (step options_1s (run options_1s (stored_token ''t1'') five_failures)
                           (WsOpen 5))
       < reconnectCountRef (run options_1s (stored_token ''t1'') five_failures)
   \<and> lowers_retryCount (WsOpen 5)
   \<and> reconnectCountRef (step options_1s (run options_1s (stored_token ''t1'') five_failures)
                           (WsOpen 5)) = 0"
proof -
  have a: "0 \<le> reconnectAttempts options_1s"
    by code_simp
  have b: "int (reconnectCountRef (run options_1s (stored_token ''t1'') five_failures))
       = reconnectAttempts options_1s"
    by code_simp
  have c: "length (timers (run options_1s (stored_token ''t1'') five_failures))
       < length (timers (step options_1s (run options_1s (stored_token ''t1'') five_failures)
                          (StorageChange (Some ''sliverui-auth'') (stored_token ''t2''))))"
    by code_simp
  have d: "reconnectCountRef (step options_1s (run options_1s (stored_token ''t1'') five_failures)
                           (WsOpen 5))
       < reconnectCountRef (run options_1s (stored_token ''t1'') five_failures)"
    by code_simp
  have g: "getToken (stored_token ''t2'') \<noteq> None"
    by code_simp
  show ?thesis
    using retryCount_bounded[OF a, of "stored_token ''t1''" five_failures
            "run options_1s (stored_token ''t1'') five_failures" "WsOpen 5"]
          a b c d g
    by simp
qed

text \<open>
  C2 as stated fails. With a maximum of 1: the first failure takes the counter to the
  maximum and starts the last retry; that attempt opens, which resets the counter to 0; the
  next unexpected close starts a reconnect timer again. No manual reconnect and no
  credential change occurs in the run.
\<close>

theorem retry_after_maximum_reached:
  "int (reconnectCountRef (run options_max1 (stored_token ''t1'') [WsClose 0 1006 []]))
     = reconnectAttempts options_max1
   \<and> int (reconnectCountRef (run options_max1 (stored_token ''t1'')
        [WsClose 0 1006 [], TimerFired 0, WsOpen 1])) = 0
   \<and> timers (run options_max1 (stored_token ''t1'')
        [WsClose 0 1006 [], TimerFired 0, WsOpen 1, WsClose 1 1006 []])
      = [\<lparr>delay = 1000, pending = False\<rparr>, \<lparr>delay = 1000, pending = True\<rparr>]
   \<and> reconnectTimeoutRef (run options_max1 (stored_token ''t1'')
        [WsClose 0 1006 [], TimerFired 0, WsOpen 1, WsClose 1 1006 []]) = Some 1"
  by code_simp

lemma open_keeps_attempt:
  assumes "attempt_in_flight s" "wsRef s = Some i" "readyState (sockets s ! i) = CONNECTING"
  shows "attempt_in_flight (step cfg s (WsOpen i))"
    and "timers (step cfg s (WsOpen i)) = timers s"
  using assms by (auto simp: attempt_in_flight_def hook_defs split: option.splits)

text \<open>
  What \<open>onopen\<close> does. Whenever a connecting socket opens, whichever of \<open>openConnection\<close>
  and \<open>connect\<close> made it, the retry counter is reset to 0 and \<open>isConnected\<close> is set. For a
  connection made by \<open>openConnection\<close> the retry budget then starts afresh at the full
  maximum: of any later run of consecutive failures, the first \<open>reconnectAttempts\<close> each
  start a retry.
\<close>

lemma onopen_resets_retryCount:
  assumes "i < length (sockets s)" and "readyState (sockets s ! i) = CONNECTING"
  shows "reconnectCountRef (step cfg s (WsOpen i)) = 0
    \<and> isConnected (step cfg s (WsOpen i))
    \<and> readyState (sockets (step cfg s (WsOpen i)) ! i) = OPEN
    \<and> (attempt_in_flight s \<and> wsRef s = Some i \<and> list_all (\<lambda>c. c \<noteq> 1000) codes \<longrightarrow>
         map delay (drop (length (timers s))
            (timers (consecutive_failures cfg (step cfg s (WsOpen i)) codes)))
          = replicate (min (length codes) (nat (reconnectAttempts cfg))) (reconnectInterval cfg))"
proof -
  have r: "reconnectCountRef (step cfg s (WsOpen i)) = 0"
    using assms by (simp add: hook_defs split: handler_kind.splits)
  have c: "isConnected (step cfg s (WsOpen i))"
    using assms by (simp add: hook_defs split: handler_kind.splits)
  have o: "readyState (sockets (step cfg s (WsOpen i)) ! i) = OPEN"
    using assms by (simp add: hook_defs split: handler_kind.splits)
  have b: "map delay (drop (length (timers s))
            (timers (consecutive_failures cfg (step cfg s (WsOpen i)) codes)))
          = replicate (min (length codes) (nat (reconnectAttempts cfg))) (reconnectInterval cfg)"
    if "attempt_in_flight s" "wsRef s = Some i" "list_all (\<lambda>c. c \<noteq> 1000) codes"
    using consecutive_failures_timers
            [OF open_keeps_attempt(1)[OF that(1,2) assms(2)] that(3), of cfg]
    by (simp add: open_keeps_attempt(2)[OF that(1,2) assms(2)] r)
  show ?thesis using r c o b by blast
qed

text \<open>
  The fifth attempt opens after four failures: the counter goes from 4 to 0, and six
  further failures in a row start five retries.
\<close>

lemma onopen_resets_retryCount_after_four_failures:
  "4 < length (sockets (run options_1s (stored_token ''t1'') four_failures))
   \<and> readyState (sockets (run options_1s (stored_token ''t1'') four_failures) ! 4) = CONNECTING
   \<and> reconnectCountRef (run options_1s (stored_token ''t1'') four_failures) = 4
   \<and> reconnectCountRef (step options_1s (run options_1s (stored_token ''t1'') four_failures)
                           (WsOpen 4)) = 0
   \<and> isConnected (step options_1s (run options_1s (stored_token ''t1'') four_failures)
                     (WsOpen 4))
   \<and> attempt_in_flight (run options_1s (stored_token ''t1'') four_failures)
   \<and> wsRef (run options_1s (stored_token ''t1'') four_failures) = Some 4
   \<and> list_all (\<lambda>c. c \<noteq> 1000) [1006, 1006, 1006, 1006, 1006, 1006::nat]
   \<and> map delay (drop (length (timers (run options_1s (stored_token ''t1'') four_failures)))
        (timers (consecutive_failures options_1s
                   (step options_1s (run options_1s (stored_token ''t1'') four_failures)
                      (WsOpen 4))
                   [1006, 1006, 1006, 1006, 1006, 1006])))
       = [1000, 1000, 1000, 1000, 1000]"
proof -
  have a: "4 < length (sockets (run options_1s (stored_token ''t1'') four_failures))"
    "readyState (sockets (run options_1s (stored_token ''t1'') four_failures) ! 4) = CONNECTING"
    by code_simp+
  have b: "attempt_in_flight (run options_1s (stored_token ''t1'') four_failures)"
    "wsRef (run options_1s (stored_token ''t1'') four_failures) = Some 4"
    "reconnectCountRef (run options_1s (stored_token ''t1'') four_failures) = 4"
    by code_simp+
  have l: "list_all (\<lambda>c. c \<noteq> 1000) [1006, 1006, 1006, 1006, 1006, 1006::nat]"
    by simp
  have c: "replicate (min (length [1006, 1006, 1006, 1006, 1006, 1006::nat])
             (nat (reconnectAttempts options_1s))) (reconnectInterval options_1s)
           = [1000, 1000, 1000, 1000, 1000]"
    by code_simp
  show ?thesis
    using onopen_resets_retryCount[OF a, of options_1s
            "[1006, 1006, 1006, 1006, 1006, 1006]"] a b l
    unfolding c by simp
qed

text \<open>
  C7. Whenever a connection attempt succeeds the retry counter is reset to 0, so that a
  later unexpected close starts the retry budget afresh at the full maximum: so it is for a
  connection made by \<open>openConnection\<close> (\<open>onopen_resets_retryCount\<close>). For a connection made
  by \<open>connect()\<close> the counter is reset as well, but the budget is never drawn on. With the
  default options and a stored token: the first socket opens, \<open>connect()\<close> is called, the
  first socket closes cleanly and the new one opens; the counter is 0 of 5 and the hook is
  connected. The new socket then closes with code 1006: no timer is started and the hook
  stays disconnected, where the same close of a socket made by \<open>openConnection\<close> starts a
  retry after 3000 ms.
\<close>

theorem retry_budget_unused_after_connect:
  "reconnectCountRef (run (default_options ''https:'' ''console.example'') (stored_token ''t1'')
        [WsOpen 0, Connect, WsClose 0 1000 [], WsOpen 1]) = 0
   \<and> isConnected (run (default_options ''https:'' ''console.example'') (stored_token ''t1'')
        [WsOpen 0, Connect, WsClose 0 1000 [], WsOpen 1])
   \<and> map readyState (sockets (run (default_options ''https:'' ''console.example'')
        (stored_token ''t1'') [WsOpen 0, Connect, WsClose 0 1000 [], WsOpen 1])) = [CLOSED, OPEN]
   \<and> reconnectAttempts (default_options ''https:'' ''console.example'') = 5
   \<and> timers (run (default_options ''https:'' ''console.example'') (stored_token ''t1'')
        [WsOpen 0, Connect, WsClose 0 1000 [], WsOpen 1, WsClose 1 1006 []]) = []
   \<and> \<not> isConnected (run (default_options ''https:'' ''console.example'') (stored_token ''t1'')
        [WsOpen 0, Connect, WsClose 0 1000 [], WsOpen 1, WsClose 1 1006 []])
   \<and> map readyState (sockets (run (default_options ''https:'' ''console.example'')
        (stored_token ''t1'') [WsOpen 0, Connect, WsClose 0 1000 [], WsOpen 1, WsClose 1 1006 []]))
       = [CLOSED, CLOSED]
   \<and> timers (run (default_options ''https:'' ''console.example'') (stored_token ''t1'')
        [WsOpen 0, WsClose 0 1006 []]) = [\<lparr>delay = 3000, pending = True\<rparr>]"
  by code_simp

text \<open>
  C3. A clean close (code 1000) of the open connection leaves the hook disconnected with
  no reconnect attempt, and an unexpected close (any other code) schedules a reconnect
  attempt while the counter is below the maximum: so it is for a socket made by
  \<open>openConnection\<close> (\<open>close_without_retry\<close>, \<open>close_schedules_retry\<close>). It is not so for a
  socket made by \<open>connect()\<close>. With the default options and a stored token: \<open>connect()\<close>, the
  socket opens, then closes with code 1006. The counter is 0, below the maximum 5, yet no
  timer is started: the hook is left disconnected and nothing will reconnect it.
\<close>

theorem unexpected_close_after_connect_not_retried:
  "ws_is_open (run (default_options ''https:'' ''console.example'') (stored_token ''t1'')
        [Connect, WsOpen 1])
   \<and> isConnected (run (default_options ''https:'' ''console.example'') (stored_token ''t1'')
        [Connect, WsOpen 1])
   \<and> int (reconnectCountRef (run (default_options ''https:'' ''console.example'')
        (stored_token ''t1'') [Connect, WsOpen 1]))
       < reconnectAttempts (default_options ''https:'' ''console.example'')
   \<and> timers (run (default_options ''https:'' ''console.example'') (stored_token ''t1'')
        [Connect, WsOpen 1, WsClose 1 1006 []]) = []
   \<and> reconnectTimeoutRef (run (default_options ''https:'' ''console.example'')
        (stored_token ''t1'') [Connect, WsOpen 1, WsClose 1 1006 []]) = None
   \<and> wsRef (run (default_options ''https:'' ''console.example'') (stored_token ''t1'')
        [Connect, WsOpen 1, WsClose 1 1006 []]) = None
   \<and> map readyState (sockets (run (default_options ''https:'' ''console.example'')
        (stored_token ''t1'') [Connect, WsOpen 1, WsClose 1 1006 []])) = [CLOSING, CLOSED]"
  by code_simp

subsection \<open>Credential change\<close>

lemma storage_common:
  "reconnectTimeoutRef (handleStorageChange cfg (Some ''sliverui-auth'') v s) = None"
  "wsRef (handleStorageChange cfg (Some ''sliverui-auth'') v s) = None"
  "\<not> isConnected (handleStorageChange cfg (Some ''sliverui-auth'') v s)"
  "length (sockets (handleStorageChange cfg (Some ''sliverui-auth'') v s)) = length (sockets s)"
  by (auto simp: handleStorageChange_def Let_def hook_defs ws_close_def
           split: option.splits auth_value.splits)

lemma storage_cancels_timer:
  assumes "reconnectTimeoutRef s = Some t" "t < length (timers s)"
  shows "\<not> pending (timers (handleStorageChange cfg (Some ''sliverui-auth'') v s) ! t)"
  using assms
  by (auto simp: handleStorageChange_def Let_def hook_defs ws_close_def nth_append
           split: option.splits auth_value.splits)

lemma storage_closes_socket:
  assumes "wsRef s = Some i" "i < length (sockets s)"
  shows
    "readyState (sockets (handleStorageChange cfg (Some ''sliverui-auth'') v s) ! i)
       \<noteq> CONNECTING"
    "readyState (sockets (handleStorageChange cfg (Some ''sliverui-auth'') v s) ! i) \<noteq> OPEN"
    "WsCloseCall i 1000 ''Token changed''
       \<in> set (effects (handleStorageChange cfg (Some ''sliverui-auth'') v s))"
  using assms
  by (auto simp: handleStorageChange_def Let_def hook_defs ws_close_def
           split: option.splits auth_value.splits)

lemma storage_with_token:
  assumes "getToken v \<noteq> None"
  shows "reconnectCountRef (handleStorageChange cfg (Some ''sliverui-auth'') v s) = 0"
    "length (timers (handleStorageChange cfg (Some ''sliverui-auth'') v s))
       = Suc (length (timers s))"
    "timers (handleStorageChange cfg (Some ''sliverui-auth'') v s) ! length (timers s)
       = \<lparr>delay = 100, pending = True\<rparr>"
  using assms
  by (auto simp: handleStorageChange_def Let_def hook_defs ws_close_def getToken_def nth_append
           split: option.splits auth_value.splits if_splits)

lemma storage_without_token:
  assumes "getToken v = None"
  shows "reconnectCountRef (handleStorageChange cfg (Some ''sliverui-auth'') v s)
           = reconnectCountRef s"
    "length (timers (handleStorageChange cfg (Some ''sliverui-auth'') v s)) = length (timers s)"
  using assms
  by (auto simp: handleStorageChange_def Let_def hook_defs ws_close_def getToken_def
           split: option.splits auth_value.splits if_splits)

lemma storage_other_fields:
  "disposed (handleStorageChange cfg k v s) = disposed s"
  "authItem (handleStorageChange cfg k v s) = authItem s"
  by (auto simp: handleStorageChange_def Let_def hook_defs ws_close_def
           split: option.splits auth_value.splits)

lemma storage_then_timer:
  assumes "getToken v \<noteq> None" "autoConnect cfg" "\<not> disposed s"
  shows "wsRef (step cfg (step cfg s (StorageChange (Some ''sliverui-auth'') v))
                  (TimerFired (length (timers s)))) = Some (length (sockets s))"
    "sockets (step cfg (step cfg s (StorageChange (Some ''sliverui-auth'') v))
                  (TimerFired (length (timers s)))) ! length (sockets s)
       = \<lparr>readyState = CONNECTING, handlers = FromOpenConnection,
          url = buildWebSocketUrl cfg v\<rparr>"
proof -
  let ?s0 = "s\<lparr>authItem := v\<rparr>"
  let ?h = "handleStorageChange cfg (Some ''sliverui-auth'') v ?s0"
  have st: "step cfg s (StorageChange (Some ''sliverui-auth'') v) = ?h"
    using assms by (simp add: step_def)
  have t: "length (timers s) < length (timers ?h)"
      "pending (timers ?h ! length (timers s))"
    using storage_with_token[OF assms(1), of cfg ?s0] by simp_all
  have f: "step cfg ?h (TimerFired (length (timers s)))
             = openConnection cfg (clearTimeout (length (timers s)) ?h)"
    using t by (simp add: step_def)
  have w: "wsRef (clearTimeout (length (timers s)) ?h) = None"
     "\<not> disposed (clearTimeout (length (timers s)) ?h)"
     "authItem (clearTimeout (length (timers s)) ?h) = v"
     "length (sockets (clearTimeout (length (timers s)) ?h)) = length (sockets s)"
    using storage_common[of cfg v ?s0]
      storage_other_fields[of cfg "Some ''sliverui-auth''" v ?s0] assms(3)
    by (simp_all add: clearTimeout_def)
  show "wsRef (step cfg (step cfg s (StorageChange (Some ''sliverui-auth'') v))
                  (TimerFired (length (timers s)))) = Some (length (sockets s))"
    unfolding st f using w assms(1)
    by (auto simp: openConnection_def ws_is_open_def new_socket_def)
  show "sockets (step cfg (step cfg s (StorageChange (Some ''sliverui-auth'') v))
                  (TimerFired (length (timers s)))) ! length (sockets s)
       = \<lparr>readyState = CONNECTING, handlers = FromOpenConnection,
          url = buildWebSocketUrl cfg v\<rparr>"
    unfolding st f using w assms(1)
    by (auto simp: openConnection_def ws_is_open_def new_socket_def nth_append)
qed

text \<open>
  C5, as the source has it. A change of the \<open>sliverui-auth\<close> item, in any state, cancels the
  reconnect timer recorded in \<open>reconnectTimeoutRef\<close>, closes the socket in \<open>wsRef\<close> with code
  1000 and leaves the hook disconnected, without creating a socket itself. If the new value
  carries an access token, the retry counter is reset to 0 and \<open>openConnection\<close> is scheduled
  100 ms later; when that timer runs (the effect not disposed), a socket is created whose
  URL is built from the new value. If the new value carries no token, the retry counter is
  left as it was, no timer is started and the hook stays disconnected.
\<close>

theorem credential_change_handling:
  "reconnectTimeoutRef (handleStorageChange cfg (Some ''sliverui-auth'') v s) = None
   \<and> wsRef (handleStorageChange cfg (Some ''sliverui-auth'') v s) = None
   \<and> \<not> isConnected (handleStorageChange cfg (Some ''sliverui-auth'') v s)
   \<and> length (sockets (handleStorageChange cfg (Some ''sliverui-auth'') v s))
       = length (sockets s)
   \<and> (\<forall>t. reconnectTimeoutRef s = Some t \<and> t < length (timers s) \<longrightarrow>
         \<not> pending (timers (handleStorageChange cfg (Some ''sliverui-auth'') v s) ! t))
   \<and> (\<forall>i. wsRef s = Some i \<and> i < length (sockets s) \<longrightarrow>
         readyState (sockets (handleStorageChange cfg (Some ''sliverui-auth'') v s) ! i)
           \<noteq> CONNECTING
         \<and> readyState (sockets (handleStorageChange cfg (Some ''sliverui-auth'') v s) ! i)
           \<noteq> OPEN
         \<and> WsCloseCall i 1000 ''Token changed''
             \<in> set (effects (handleStorageChange cfg (Some ''sliverui-auth'') v s)))
   \<and> (getToken v \<noteq> None \<longrightarrow>
         reconnectCountRef (handleStorageChange cfg (Some ''sliverui-auth'') v s) = 0
         \<and> length (timers (handleStorageChange cfg (Some ''sliverui-auth'') v s))
             = Suc (length (timers s))
         \<and> timers (handleStorageChange cfg (Some ''sliverui-auth'') v s) ! length (timers s)
             = \<lparr>delay = 100, pending = True\<rparr>)
   \<and> (getToken v = None \<longrightarrow>
         reconnectCountRef (handleStorageChange cfg (Some ''sliverui-auth'') v s)
           = reconnectCountRef s
         \<and> length (timers (handleStorageChange cfg (Some ''sliverui-auth'') v s))
             = length (timers s))
   \<and> (getToken v \<noteq> None \<and> autoConnect cfg \<and> \<not> disposed s \<longrightarrow>
         wsRef (step cfg (step cfg s (StorageChange (Some ''sliverui-auth'') v))
                  (TimerFired (length (timers s)))) = Some (length (sockets s))
         \<and> sockets (step cfg (step cfg s (StorageChange (Some ''sliverui-auth'') v))
                  (TimerFired (length (timers s)))) ! length (sockets s)
             = \<lparr>readyState = CONNECTING, handlers = FromOpenConnection,
                url = buildWebSocketUrl cfg v\<rparr>)"
  using storage_common[of cfg v s] storage_cancels_timer[of s _ cfg v]
    storage_closes_socket[of s _ cfg v] storage_with_token[of v cfg s]
    storage_without_token[of v cfg s] storage_then_timer[of v cfg s]
  by blast

text \<open>
  A new token arrives while the hook waits to reconnect, and the item is removed while the
  hook is connected.
\<close>

theorem credential_change_handling_witness:
  "reconnectTimeoutRef waiting_state = Some 0 \<and> 0 < length (timers waiting_state)
   \<and> pending (timers waiting_state ! 0)
   \<and> \<not> pending (timers (handleStorageChange options_1s (Some ''sliverui-auth'')
                           (stored_token ''t2'') waiting_state) ! 0)
   \<and> getToken (stored_token ''t2'') \<noteq> None \<and> autoConnect options_1s
   \<and> \<not> disposed waiting_state
   \<and> reconnectCountRef (handleStorageChange options_1s (Some ''sliverui-auth'')
                           (stored_token ''t2'') waiting_state) = 0
   \<and> timers (handleStorageChange options_1s (Some ''sliverui-auth'')
                (stored_token ''t2'') waiting_state) ! length (timers waiting_state)
       = \<lparr>delay = 100, pending = True\<rparr>
   \<and> sockets (step options_1s
                (step options_1s waiting_state
                   (StorageChange (Some ''sliverui-auth'') (stored_token ''t2'')))
                (TimerFired (length (timers waiting_state)))) ! length (sockets waiting_state)
       = \<lparr>readyState = CONNECTING, handlers = FromOpenConnection,
          url = buildWebSocketUrl options_1s (stored_token ''t2'')\<rparr>
   \<and> wsRef connected_state = Some 2 \<and> 2 < length (sockets connected_state)
   \<and> readyState (sockets connected_state ! 2) = OPEN
   \<and> readyState (sockets (handleStorageChange options_1s (Some ''sliverui-auth'')
                             None connected_state) ! 2) \<noteq> OPEN
   \<and> getToken None = None
   \<and> reconnectCountRef (handleStorageChange options_1s (Some ''sliverui-auth'')
                           None connected_state) = reconnectCountRef connected_state
   \<and> length (timers (handleStorageChange options_1s (Some ''sliverui-auth'')
                        None connected_state)) = length (timers connected_state)"
proof -
  have w: "reconnectTimeoutRef waiting_state = Some 0" "0 < length (timers waiting_state)"
    "pending (timers waiting_state ! 0)" "getToken (stored_token ''t2'') \<noteq> None"
    "autoConnect options_1s" "\<not> disposed waiting_state"
    by code_simp+
  have c: "wsRef connected_state = Some 2" "2 < length (sockets connected_state)"
    "readyState (sockets connected_state ! 2) = OPEN" "getToken None = None"
    by code_simp+
  show ?thesis
    using credential_change_handling[of options_1s "stored_token ''t2''" waiting_state]
      credential_change_handling[of options_1s None connected_state] w c
    by simp
qed

text \<open>
  C5 as stated fails in two places. Logging out (the item removed) after three failures
  leaves the retry counter at 3, not 0. And a new token does not start a connection at
  once: after the handler there is no socket in \<open>wsRef\<close>, the only socket is the old one,
  closing, and a 100 ms timer is pending.
\<close>

theorem credential_change_counterexample:
  "reconnectCountRef (run options_1s (stored_token ''t1'')
      [WsClose 0 1006 [], TimerFired 0, WsClose 1 1006 [], TimerFired 1, WsClose 2 1006 []]) = 3
   \<and> reconnectCountRef (run options_1s (stored_token ''t1'')
      [WsClose 0 1006 [], TimerFired 0, WsClose 1 1006 [], TimerFired 1, WsClose 2 1006 [],
       StorageChange (Some ''sliverui-auth'') None]) = 3
   \<and> wsRef (run options_1s (stored_token ''t1'')
      [WsOpen 0, StorageChange (Some ''sliverui-auth'') (stored_token ''t2'')]) = None
   \<and> map readyState (sockets (run options_1s (stored_token ''t1'')
      [WsOpen 0, StorageChange (Some ''sliverui-auth'') (stored_token ''t2'')])) = [CLOSING]
   \<and> timers (run options_1s (stored_token ''t1'')
      [WsOpen 0, StorageChange (Some ''sliverui-auth'') (stored_token ''t2'')])
       = [\<lparr>delay = 100, pending = True\<rparr>]"
  by code_simp

subsection \<open>Disconnecting\<close>

text \<open>
  What \<open>disconnect()\<close> does by itself: the timer recorded in \<open>reconnectTimeoutRef\<close> is
  cancelled, the socket in \<open>wsRef\<close> is closed with code 1000, both refs are cleared and
  \<open>isConnected\<close> is false. Timers and sockets the refs do not hold are not touched.
\<close>

lemma disconnect_clears_refs:
  "reconnectTimeoutRef (disconnect s) = None"
  "wsRef (disconnect s) = None"
  "\<not> isConnected (disconnect s)"
  "reconnectTimeoutRef s = Some t \<Longrightarrow> t < length (timers s)
     \<Longrightarrow> \<not> pending (timers (disconnect s) ! t)"
  "wsRef s = Some i \<Longrightarrow> i < length (sockets s)
     \<Longrightarrow> WsCloseCall i 1000 ''User initiated disconnect'' \<in> set (effects (disconnect s))
         \<and> readyState (sockets (disconnect s) ! i) \<noteq> OPEN
         \<and> readyState (sockets (disconnect s) ! i) \<noteq> CONNECTING"
  by (auto simp: disconnect_def Let_def hook_defs ws_close_def split: option.splits)

lemma disconnect_keeps_other_timers:
  "reconnectTimeoutRef s \<noteq> Some t \<Longrightarrow> t < length (timers s)
     \<Longrightarrow> timers (disconnect s) ! t = timers s ! t"
  by (auto simp: disconnect_def Let_def hook_defs ws_close_def split: option.splits)

text \<open>
  C6. \<open>disconnect()\<close> cancels any pending reconnect timer and leaves the hook
  disconnected, and a reconnect scheduled before never runs after it: not so for the timer
  started by a credential change, which no ref holds. With the default options: a new
  token arrives (the handler closes the connection and schedules \<open>openConnection\<close> in
  100 ms), then \<open>disconnect()\<close> is called. The timer is still pending after
  \<open>disconnect()\<close>; when it runs, a socket is created for the new token, and it opens.
\<close>

theorem reconnect_fires_after_disconnect:
  "timers (run (default_options ''https:'' ''console.example'') (stored_token ''t1'')
        [StorageChange (Some ''sliverui-auth'') (stored_token ''t2''), Disconnect])
     = [\<lparr>delay = 100, pending = True\<rparr>]
   \<and> wsRef (run (default_options ''https:'' ''console.example'') (stored_token ''t1'')
        [StorageChange (Some ''sliverui-auth'') (stored_token ''t2''), Disconnect]) = None
   \<and> wsRef (run (default_options ''https:'' ''console.example'') (stored_token ''t1'')
        [StorageChange (Some ''sliverui-auth'') (stored_token ''t2''), Disconnect,
         TimerFired 0]) = Some 1
   \<and> sockets (run (default_options ''https:'' ''console.example'') (stored_token ''t1'')
        [StorageChange (Some ''sliverui-auth'') (stored_token ''t2''), Disconnect,
         TimerFired 0])
     = [\<lparr>readyState = CLOSING, handlers = FromOpenConnection,
          url = ''wss://console.example/ws?token=t1''\<rparr>,
        \<lparr>readyState = CONNECTING, handlers = FromOpenConnection,
          url = ''wss://console.example/ws?token=t2''\<rparr>]
   \<and> isConnected (run (default_options ''https:'' ''console.example'') (stored_token ''t1'')
        [StorageChange (Some ''sliverui-auth'') (stored_token ''t2''), Disconnect,
         TimerFired 0, WsOpen 1])"
  by code_simp

section \<open>Properties of tunnel control\<close>

lemma stopMutation_without_tunnel:
  "tunnelId c = None \<Longrightarrow>
     stopMutation getApiErrorMessage api c =
       c\<lparr>toasts := toasts c @ [(Some ''destructive'', ''Failed to stop CDP tunnel'',
                                 Some (getApiErrorMessage ''No active tunnel''))]\<rparr>"
  by (simp add: stopMutation_def)

lemma stopMutation_success:
  "tunnelId c = Some tid \<Longrightarrow> api tid = Inr u \<Longrightarrow>
     stopMutation getApiErrorMessage api c =
       c\<lparr>cdpActive := False, tunnelId := None, cdpUrls := None,
         toasts := toasts c @ [(None, ''CDP tunnel stopped'', None)]\<rparr>"
  by (simp add: stopMutation_def)

lemma find_map_same_test:
  assumes "\<And>u. P (g u) = P u"
  shows "find P (map g xs) = map_option g (find P xs)"
  by (induction xs) (simp_all add: assms)

lemma StopTunnel_closed:
  assumes "find (\<lambda>t. tunnel_id t = tid \<and> sessionId t = sid) (registry m) = Some t"
    and "state t = Closed \<or> state t = Failed"
  shows "StopTunnel sid tid m = (StopOk, m, [])"
  using assms by (auto simp: StopTunnel_def)

lemma StopTunnel_again:
  assumes "StopTunnel sid tid m = (StopOk, m', es)"
  shows "StopTunnel sid tid m' = (StopOk, m', [])"
proof (cases "find (\<lambda>t. tunnel_id t = tid \<and> sessionId t = sid) (registry m)")
  case None
  with assms show ?thesis by (simp add: StopTunnel_def)
next
  case (Some t)
  show ?thesis
  proof (cases "state t = Closed \<or> state t = Failed")
    case True
    with Some assms have "m' = m" by (auto simp: StopTunnel_def)
    with StopTunnel_closed[OF Some True] show ?thesis by simp
  next
    case False
    let ?g = "\<lambda>u. if tunnel_id u = tid \<and> sessionId u = sid then u\<lparr>state := Closed\<rparr> else u"
    from Some False assms have m': "m' = m\<lparr>registry := map ?g (registry m),
               subStreams := filter (\<lambda>x. parent x \<noteq> tid) (subStreams m)\<rparr>"
      by (auto simp: StopTunnel_def)
    have "find (\<lambda>t. tunnel_id t = tid \<and> sessionId t = sid) (map ?g (registry m))
            = map_option ?g (find (\<lambda>t. tunnel_id t = tid \<and> sessionId t = sid) (registry m))"
      by (rule find_map_same_test) simp
    moreover have "tunnel_id t = tid \<and> sessionId t = sid"
      using Some by (auto simp: find_Some_iff)
    ultimately have f: "find (\<lambda>t. tunnel_id t = tid \<and> sessionId t = sid) (registry m')
            = Some (t\<lparr>state := Closed\<rparr>)"
      using Some by (simp add: m')
    show ?thesis by (rule StopTunnel_closed[OF f]) simp
  qed
qed

text \<open>
  C8. \<open>StopTunnel\<close> is idempotent: stopping a tunnel that is already \<open>Closed\<close> or \<open>Failed\<close>
  returns success, changes nothing and performs no teardown action; and after any stop
  that succeeded, a further stop of the same tunnel id returns success, leaves the manager
  as it is and performs no teardown action.
\<close>

theorem StopTunnel_idempotent:
  "(find (\<lambda>t. tunnel_id t = tid \<and> sessionId t = sid) (registry m) = Some t
      \<and> (state t = Closed \<or> state t = Failed)
    \<longrightarrow> StopTunnel sid tid m = (StopOk, m, []))
   \<and> (StopTunnel sid tid m = (StopOk, m', es) \<longrightarrow> StopTunnel sid tid m' = (StopOk, m', []))"
  using StopTunnel_closed StopTunnel_again by blast

text \<open>
  Stopping the failed forward does nothing; stopping the active SOCKS5 tunnel tears it
  down once, and stopping it again does nothing.
\<close>

theorem StopTunnel_idempotent_witness:
  "find (\<lambda>t. tunnel_id t = 2 \<and> sessionId t = ''abc'') (registry example_manager)
     = Some \<lparr>tunnel_id = 2, kind = Forward, sessionId = ''abc'', localPort = 9222,
          remotePort = 9222, state = Failed, createdAt = 5, bytesIn = 0, bytesOut = 0\<rparr>
   \<and> StopTunnel ''abc'' 2 example_manager = (StopOk, example_manager, [])
   \<and> StopTunnel ''abc'' 1 example_manager
       = (StopOk, example_manager_stopped,
          [CloseLocalListener 1080, ChannelTransportClose 1,
           ForceCloseSubStream 1 7, ForceCloseSubStream 1 8])
   \<and> StopTunnel ''abc'' 1 example_manager_stopped = (StopOk, example_manager_stopped, [])"
proof -
  have a: "find (\<lambda>t. tunnel_id t = 2 \<and> sessionId t = ''abc'') (registry example_manager)
     = Some \<lparr>tunnel_id = 2, kind = Forward, sessionId = ''abc'', localPort = 9222,
          remotePort = 9222, state = Failed, createdAt = 5, bytesIn = 0, bytesOut = 0\<rparr>"
    by (simp add: example_manager_def)
  have b: "StopTunnel ''abc'' 1 example_manager
       = (StopOk, example_manager_stopped,
          [CloseLocalListener 1080, ChannelTransportClose 1,
           ForceCloseSubStream 1 7, ForceCloseSubStream 1 8])"
    by (simp add: StopTunnel_def example_manager_def example_manager_stopped_def)
  show ?thesis
    using a b
      StopTunnel_idempotent[of 2 "''abc''" example_manager
        "\<lparr>tunnel_id = 2, kind = Forward, sessionId = ''abc'', localPort = 9222,
          remotePort = 9222, state = Failed, createdAt = 5, bytesIn = 0, bytesOut = 0\<rparr>"]
      StopTunnel_idempotent[of 1 "''abc''" example_manager _ example_manager_stopped
         "[CloseLocalListener 1080, ChannelTransportClose 1,
           ForceCloseSubStream 1 7, ForceCloseSubStream 1 8]"]
    by simp
qed

end
